theory Spec2Isabelle
  imports Complex_Main
begin

section \<open>The reliability map of OmniBAR\<close>

text \<open>
  A shallow embedding of \<^verbatim>\<open>frontend/src/hooks/useReliabilityMapData.ts\<close> and
  \<^verbatim>\<open>frontend/src/pages/ReliabilityMap.tsx\<close>.

  Conventions of the embedding.
  \<^item> A JavaScript \<^verbatim>\<open>number\<close> is a \<^typ>\<open>real\<close>: the arithmetic of the source
    (\<^verbatim>\<open>*\<close>, \<^verbatim>\<open>/\<close>, \<^verbatim>\<open>+\<close>, \<^verbatim>\<open>-\<close>, \<^verbatim>\<open>Math.cos\<close>, \<^verbatim>\<open>Math.sin\<close>) is read as exact
    arithmetic on finite numbers; the rounding of IEEE binary64, \<^verbatim>\<open>NaN\<close> and the
    infinities are outside the model. The two zeros of JavaScript are both \<open>0\<close>, and
    both are falsy.
  \<^item> An optional field (\<^verbatim>\<open>score?: number\<close>) is an \<^typ>\<open>'a option\<close>; \<open>None\<close> is
    \<^verbatim>\<open>undefined\<close>.
  \<^item> A \<^verbatim>\<open>Map<string, {x, y}>\<close> is a partial function from keys to positions: the
    source only ever calls \<^verbatim>\<open>set\<close> and \<^verbatim>\<open>get\<close> on it.
  \<^item> Record fields carry the name of their type as a prefix where the source's name
    is taken (\<^verbatim>\<open>id\<close>) or is used by two types (\<^verbatim>\<open>x\<close>, \<^verbatim>\<open>y\<close>, \<^verbatim>\<open>opacity\<close>).
  \<^item> What the host platform computes and the repository does not define
    (\<^verbatim>\<open>Number.prototype.toString\<close> for large magnitudes,
    \<^verbatim>\<open>Date.prototype.toLocaleString\<close>) is a parameter, the record \<open>platform\<close>.
\<close>

subsection \<open>Data model: \<^verbatim>\<open>useReliabilityMapData.ts\<close>, lines 3 to 23\<close>

datatype node_type = Agent | Suite | Persona | Memory

record Node =
  node_id :: string
  node_label :: string
  node_type :: node_type
  node_x :: "real option"
  node_y :: "real option"
  node_score :: "real option"
  node_lastRun :: "string option"

record Link =
  source :: string
  target :: string
  strength :: real
  drift :: real

record ReliabilityMapData =
  nodes :: "Node list"
  links :: "Link list"

subsection \<open>The hook \<^verbatim>\<open>useReliabilityMapData\<close>, lines 25 to 50\<close>

text \<open>
  A value caught by \<^verbatim>\<open>catch (err)\<close> is either an \<^verbatim>\<open>Error\<close> object, of which the hook
  reads the message, or anything else. A promise settles as fulfilled or rejected.
  The body of a response is the parsed JSON: a payload or \<^verbatim>\<open>null\<close>.
\<close>

datatype thrown = Error string | NotAnError

datatype 'a settled = Fulfilled 'a | Rejected thrown

record Response =
  status :: nat
  json :: "ReliabilityMapData option settled"

definition ok :: "Response \<Rightarrow> bool" where
  "ok response \<longleftrightarrow> 200 \<le> status response \<and> status response \<le> 299"

record hook_state =
  data :: "ReliabilityMapData option"
  loading :: bool
  error :: "string option"

definition useState_initial :: hook_state where
  "useState_initial = \<lparr>data = None, loading = True, error = None\<rparr>"

text \<open>The \<^verbatim>\<open>try\<close> block: \<open>Inl\<close> is the value thrown, \<open>Inr\<close> the result handed to \<^verbatim>\<open>setData\<close>.\<close>

definition fetchData_try :: "Response settled \<Rightarrow> thrown + ReliabilityMapData option" where
  "fetchData_try outcome =
     (case outcome of
        Rejected err \<Rightarrow> Inl err
      | Fulfilled response \<Rightarrow>
          if \<not> ok response then Inl (Error ''Failed to fetch reliability map data'')
          else (case json response of
                  Rejected err \<Rightarrow> Inl err
                | Fulfilled result \<Rightarrow> Inr result))"

definition error_message :: "thrown \<Rightarrow> string" where
  "error_message err = (case err of Error message \<Rightarrow> message | NotAnError \<Rightarrow> ''Unknown error'')"

text \<open>\<^verbatim>\<open>try { ... setData(result) } catch (err) { setError(...) } finally { setLoading(false) }\<close>\<close>

definition fetchData :: "Response settled \<Rightarrow> hook_state \<Rightarrow> hook_state" where
  "fetchData outcome s =
     (let s' = (case fetchData_try outcome of
                  Inr result \<Rightarrow> s\<lparr>data := result\<rparr>
                | Inl err \<Rightarrow> s\<lparr>error := Some (error_message err)\<rparr>)
      in s'\<lparr>loading := False\<rparr>)"

definition useReliabilityMapData :: "Response settled \<Rightarrow> hook_state" where
  "useReliabilityMapData outcome = fetchData outcome useState_initial"

subsection \<open>The layout effect: \<^verbatim>\<open>ReliabilityMap.tsx\<close>, lines 11 to 30\<close>

record Position =
  pos_x :: real
  pos_y :: real

type_synonym positions = "string \<rightharpoonup> Position"

definition centerX :: real where
  "centerX = 400"

definition centerY :: real where
  "centerY = 300"

definition radius :: real where
  "radius = 150"

definition surroundingNodes :: "Node list \<Rightarrow> Node list" where
  "surroundingNodes ns = filter (\<lambda>n. node_id n \<noteq> ''agent'') ns"

definition angle :: "nat \<Rightarrow> nat \<Rightarrow> real" where
  "angle index len = (real index / real len) * 2 * pi"

text \<open>
  \<^verbatim>\<open>surroundingNodes.forEach((node, index) => { ... newPositions.set(node.id, {x, y}) })\<close>:
  the loop over the remaining nodes, the index of the next one, the fixed
  \<^verbatim>\<open>surroundingNodes.length\<close> and the map built so far.
\<close>

fun forEach :: "Node list \<Rightarrow> nat \<Rightarrow> nat \<Rightarrow> positions \<Rightarrow> positions" where
  "forEach [] index len newPositions = newPositions"
| "forEach (node # rest) index len newPositions =
     forEach rest (Suc index) len
       (newPositions(node_id node \<mapsto>
          \<lparr>pos_x = centerX + radius * cos (angle index len),
           pos_y = centerY + radius * sin (angle index len)\<rparr>))"

definition layout :: "Node list \<Rightarrow> positions" where
  "layout ns =
     forEach (surroundingNodes ns) 0 (length (surroundingNodes ns))
       (Map.empty(''agent'' \<mapsto> \<lparr>pos_x = centerX, pos_y = centerY\<rparr>))"

text \<open>\<^verbatim>\<open>if (!data) return;\<close> leaves the state \<^verbatim>\<open>positions\<close> as it was.\<close>

definition layout_effect :: "ReliabilityMapData option \<Rightarrow> positions \<Rightarrow> positions" where
  "layout_effect d old = (case d of None \<Rightarrow> old | Some payload \<Rightarrow> layout (nodes payload))"

subsection \<open>Formatting\<close>

record platform =
  numberToString :: "real \<Rightarrow> string"
  toLocaleString :: "string \<Rightarrow> string"

fun decimal :: "nat \<Rightarrow> string" where
  "decimal n = (if n < 10 then [''0123456789'' ! n] else decimal (n div 10) @ [''0123456789'' ! (n mod 10)])"

declare decimal.simps [simp del]

text \<open>
  \<^verbatim>\<open>Number.prototype.toFixed(0)\<close> on a finite number: the sign is split off, a
  magnitude of at least \<open>10\<^sup>2\<^sup>1\<close> is printed by \<^verbatim>\<open>Number::toString\<close>, and a smaller one
  as the nearest integer, the larger of the two at a tie. The products handed to it
  (\<^verbatim>\<open>score * 100\<close>, \<^verbatim>\<open>strength * 100\<close>, \<^verbatim>\<open>drift * 100\<close>) are exact here, where the source
  rounds each to a binary64 first; next to a tie the digits printed can differ by
  one. No statement below rests on the digits of a percentage.
\<close>

definition toFixed0_magnitude :: "platform \<Rightarrow> real \<Rightarrow> string" where
  "toFixed0_magnitude env v =
     (if v \<ge> 10 ^ 21 then numberToString env v else decimal (nat \<lfloor>v + 1 / 2\<rfloor>))"

definition toFixed0 :: "platform \<Rightarrow> real \<Rightarrow> string" where
  "toFixed0 env v =
     (if v < 0 then ''-'' @ toFixed0_magnitude env (- v) else toFixed0_magnitude env v)"

definition type_name :: "node_type \<Rightarrow> string" where
  "type_name t = (case t of Agent \<Rightarrow> ''agent'' | Suite \<Rightarrow> ''suite''
                   | Persona \<Rightarrow> ''persona'' | Memory \<Rightarrow> ''memory'')"

text \<open>\<^verbatim>\<open>node.score ? (node.score * 100).toFixed(0) + '%' : 'N/A'\<close>\<close>

definition score_field :: "platform \<Rightarrow> Node \<Rightarrow> string" where
  "score_field env node =
     (case node_score node of
        None \<Rightarrow> ''N/A''
      | Some s \<Rightarrow> if s = 0 then ''N/A'' else toFixed0 env (s * 100) @ ''%'')"

text \<open>\<^verbatim>\<open>node.lastRun ? new Date(node.lastRun).toLocaleString() : 'N/A'\<close>\<close>

definition lastRun_field :: "platform \<Rightarrow> Node \<Rightarrow> string" where
  "lastRun_field env node =
     (case node_lastRun node of
        None \<Rightarrow> ''N/A''
      | Some t \<Rightarrow> if t = [] then ''N/A'' else toLocaleString env t)"

definition node_tooltip :: "platform \<Rightarrow> Node \<Rightarrow> string" where
  "node_tooltip env node =
     ''Type: '' @ type_name (node_type node) @ [CHR 0x0A] @
     ''Score: '' @ score_field env node @ [CHR 0x0A] @
     ''Last Run: '' @ lastRun_field env node"

text \<open>\<^verbatim>\<open>sourceNode?.label || link.source\<close>, with \<^verbatim>\<open>sourceNode = data.nodes.find(...)\<close>.\<close>

definition label_or :: "Node list \<Rightarrow> string \<Rightarrow> string" where
  "label_or ns ident =
     (case find (\<lambda>n. node_id n = ident) ns of
        None \<Rightarrow> ident
      | Some n \<Rightarrow> if node_label n = [] then ident else node_label n)"

text \<open>The separator of the link tooltip, byte for byte as the source file has it.\<close>

definition arrow :: string where
  "arrow = [CHR 0xC3, CHR 0xA2, CHR 0xE2, CHR 0x80, CHR 0xA0, CHR 0xE2, CHR 0x80, CHR 0x99]"

definition link_tooltip :: "platform \<Rightarrow> Node list \<Rightarrow> Link \<Rightarrow> string" where
  "link_tooltip env ns link =
     ''Connection: '' @ label_or ns (source link) @ '' '' @ arrow @ '' '' @
       label_or ns (target link) @ [CHR 0x0A] @
     ''Strength: '' @ toFixed0 env (strength link * 100) @ ''%'' @ [CHR 0x0A] @
     ''Drift: '' @ toFixed0 env (drift link * 100) @ ''%''"

subsection \<open>The rendered scene: \<^verbatim>\<open>ReliabilityMap.tsx\<close>, lines 32 to 149\<close>

record line_elem =
  line_key :: nat
  x1 :: real
  y1 :: real
  x2 :: real
  y2 :: real
  stroke :: string
  strokeWidth :: real
  line_opacity :: real
  className :: string
  line_title :: string

record circle_elem =
  cx :: real
  cy :: real
  r :: real
  fill :: string
  circle_opacity :: real
  circle_title :: string

record text_elem =
  text_x :: real
  text_y :: real
  textAnchor :: string
  fontSize :: string
  text_fill :: string
  children :: string

text \<open>
  The click handler of the circle (a console log) and its cursor style are left out.
  The value of \<^verbatim>\<open>{node.score && (<text>...</text>)}\<close>: \<^verbatim>\<open>undefined\<close> when the score
  is absent, the number itself when it is falsy, the percentage label otherwise.
\<close>

datatype jsx_child = JsUndefined | JsNumber real | JsElement text_elem

record g_elem =
  g_key :: string
  circle :: circle_elem
  label_text :: text_elem
  score_text :: jsx_child

text \<open>The callback of \<^verbatim>\<open>data.links.map((link, index) => ...)\<close>, lines 75 to 99.\<close>

definition render_link :: "platform \<Rightarrow> positions \<Rightarrow> Node list \<Rightarrow> nat \<Rightarrow> Link \<Rightarrow> line_elem option" where
  "render_link env positions ns index link =
     (case positions (source link) of
        None \<Rightarrow> None
      | Some sourcePos \<Rightarrow>
          (case positions (target link) of
             None \<Rightarrow> None
           | Some targetPos \<Rightarrow>
               Some \<lparr>line_key = index,
                     x1 = pos_x sourcePos, y1 = pos_y sourcePos,
                     x2 = pos_x targetPos, y2 = pos_y targetPos,
                     stroke = ''hsl(var(--primary))'',
                     strokeWidth = strength link * 5,
                     line_opacity = 1 - drift link,
                     className = ''animate-pulse'',
                     line_title = link_tooltip env ns link\<rparr>))"

text \<open>\<^verbatim>\<open>const size = node.type === 'agent' ? 20 : 15\<close>\<close>

definition node_size :: "Node \<Rightarrow> real" where
  "node_size node = (if node_type node = Agent then 20 else 15)"

definition color :: "Node \<Rightarrow> string" where
  "color node =
     (if node_type node = Agent then ''hsl(var(--primary))''
      else if node_type node = Suite then ''hsl(var(--secondary))''
      else ''hsl(var(--muted))'')"

text \<open>\<^verbatim>\<open>opacity={node.score || 0.8}\<close>\<close>

definition fill_opacity :: "Node \<Rightarrow> real" where
  "fill_opacity node =
     (case node_score node of None \<Rightarrow> 0.8 | Some s \<Rightarrow> if s = 0 then 0.8 else s)"

definition score_label :: "platform \<Rightarrow> Position \<Rightarrow> Node \<Rightarrow> jsx_child" where
  "score_label env pos node =
     (case node_score node of
        None \<Rightarrow> JsUndefined
      | Some s \<Rightarrow>
          if s = 0 then JsNumber s
          else JsElement \<lparr>text_x = pos_x pos, text_y = pos_y pos - node_size node - 5,
                          textAnchor = ''middle'', fontSize = ''10'',
                          text_fill = ''hsl(var(--muted-foreground))'',
                          children = toFixed0 env (s * 100) @ ''%''\<rparr>)"

text \<open>The callback of \<^verbatim>\<open>data.nodes.map((node) => ...)\<close>, lines 100 to 144.\<close>

definition render_node :: "platform \<Rightarrow> positions \<Rightarrow> Node \<Rightarrow> g_elem option" where
  "render_node env positions node =
     (case positions (node_id node) of
        None \<Rightarrow> None
      | Some pos \<Rightarrow>
          Some \<lparr>g_key = node_id node,
                circle = \<lparr>cx = pos_x pos, cy = pos_y pos, r = node_size node,
                          fill = color node, circle_opacity = fill_opacity node,
                          circle_title = node_tooltip env node\<rparr>,
                label_text = \<lparr>text_x = pos_x pos, text_y = pos_y pos + node_size node + 15,
                              textAnchor = ''middle'', fontSize = ''12'',
                              text_fill = ''hsl(var(--foreground))'',
                              children = node_label node\<rparr>,
                score_text = score_label env pos node\<rparr>)"

primrec map_indexed :: "(nat \<Rightarrow> 'a \<Rightarrow> 'b) \<Rightarrow> nat \<Rightarrow> 'a list \<Rightarrow> 'b list" where
  "map_indexed f index [] = []"
| "map_indexed f index (v # rest) = f index v # map_indexed f (Suc index) rest"

text \<open>
  What the component returns: one of the three placeholder screens, or the graph with
  one entry per link and one per node, \<open>None\<close> where the callback returned \<^verbatim>\<open>null\<close>.
  \<^verbatim>\<open>if (error)\<close> tests a string, so the empty message is falsy.
\<close>

datatype view =
    Loading
  | ErrorBox string
  | NoData
  | Graph "line_elem option list" "g_elem option list"

definition graph :: "platform \<Rightarrow> hook_state \<Rightarrow> positions \<Rightarrow> view" where
  "graph env h positions =
     (case data h of
        None \<Rightarrow> NoData
      | Some payload \<Rightarrow>
          Graph (map_indexed (render_link env positions (nodes payload)) 0 (links payload))
                (map (render_node env positions) (nodes payload)))"

definition ReliabilityMap :: "platform \<Rightarrow> hook_state \<Rightarrow> positions \<Rightarrow> view" where
  "ReliabilityMap env h positions =
     (if loading h then Loading
      else (case error h of
              None \<Rightarrow> graph env h positions
            | Some message \<Rightarrow>
                if message = [] then graph env h positions else ErrorBox message))"

text \<open>
  The component once the fetch has settled and the layout effect has run on the data
  it delivered: the state \<^verbatim>\<open>positions\<close> starts as the empty map.
\<close>

definition settled_positions :: "Response settled \<Rightarrow> positions" where
  "settled_positions outcome =
     layout_effect (data (useReliabilityMapData outcome)) Map.empty"

definition settled_view :: "platform \<Rightarrow> Response settled \<Rightarrow> view" where
  "settled_view env outcome =
     ReliabilityMap env (useReliabilityMapData outcome) (settled_positions outcome)"

subsection \<open>Auxiliary notions for the statements\<close>

text \<open>
  The map \<^verbatim>\<open>newPositions\<close> after the first \<open>k\<close> calls of the \<^verbatim>\<open>forEach\<close> callback;
  after all of them it is the map the layout effect stores.
\<close>

definition positions_after :: "nat \<Rightarrow> Node list \<Rightarrow> positions" where
  "positions_after k ns =
     forEach (take k (surroundingNodes ns)) 0 (length (surroundingNodes ns))
       (Map.empty(''agent'' \<mapsto> \<lparr>pos_x = centerX, pos_y = centerY\<rparr>))"

text \<open>The clamping to the unit interval that the specification speaks of.\<close>

definition clamp01 :: "real \<Rightarrow> real" where
  "clamp01 v = max 0 (min 1 v)"

text \<open>Whether the group of a node carries the percentage label above the circle.\<close>

definition has_percentage_label :: "g_elem \<Rightarrow> bool" where
  "has_percentage_label g = (case score_text g of JsElement t \<Rightarrow> True | _ \<Rightarrow> False)"

text \<open>The lists of a rendered graph; a placeholder screen has neither edges nor nodes.\<close>

definition is_graph :: "view \<Rightarrow> bool" where
  "is_graph v = (case v of Graph edges groups \<Rightarrow> True | _ \<Rightarrow> False)"

definition edges_of :: "view \<Rightarrow> line_elem option list" where
  "edges_of v = (case v of Graph edges groups \<Rightarrow> edges | _ \<Rightarrow> [])"

definition groups_of :: "view \<Rightarrow> g_elem option list" where
  "groups_of v = (case v of Graph edges groups \<Rightarrow> groups | _ \<Rightarrow> [])"

text \<open>The ids a link can refer to in a list of nodes.\<close>

definition node_ids :: "Node list \<Rightarrow> string set" where
  "node_ids ns = node_id ` set ns"

text \<open>
  Inputs for the concrete examples: a node as the JSON object
  \<^verbatim>\<open>{id, label, type, score}\<close>, a response with status 200 that carries a payload, and
  a platform that prints a date string as it is and a large number by the digits of
  its integer part. The general theorems hold for every platform.
\<close>

definition json_node :: "string \<Rightarrow> string \<Rightarrow> node_type \<Rightarrow> real option \<Rightarrow> Node" where
  "json_node ident lbl t sc =
     \<lparr>node_id = ident, node_label = lbl, node_type = t, node_x = None, node_y = None,
      node_score = sc, node_lastRun = None\<rparr>"

definition delivered :: "ReliabilityMapData \<Rightarrow> Response settled" where
  "delivered payload = Fulfilled \<lparr>status = 200, json = Fulfilled (Some payload)\<rparr>"

definition digits_of_integer_part :: "real \<Rightarrow> string" where
  "digits_of_integer_part v = decimal (nat \<lfloor>v\<rfloor>)"

definition example_platform :: platform where
  "example_platform = \<lparr>numberToString = digits_of_integer_part, toLocaleString = id\<rparr>"

section \<open>Properties\<close>

subsection \<open>The loop of the layout effect\<close>

lemma forEach_absent:
  "k \<notin> node_id ` set ns \<Longrightarrow> forEach ns i len m k = m k"
  by (induction ns arbitrary: i m) auto

lemma dom_forEach: "dom (forEach ns i len m) = dom m \<union> node_id ` set ns"
  by (induction ns arbitrary: i m) auto

lemma forEach_last_occurrence:
  "j < length ns \<Longrightarrow>
   (\<forall>k. j < k \<and> k < length ns \<longrightarrow> node_id (ns ! k) \<noteq> node_id (ns ! j)) \<Longrightarrow>
   forEach ns i len m (node_id (ns ! j)) =
     Some \<lparr>pos_x = centerX + radius * cos (angle (i + j) len),
           pos_y = centerY + radius * sin (angle (i + j) len)\<rparr>"
proof (induction ns arbitrary: i j m)
  case Nil
  then show ?case by simp
next
  case (Cons n ns)
  show ?case
  proof (cases j)
    case 0
    have "node_id n \<notin> node_id ` set ns"
    proof
      assume "node_id n \<in> node_id ` set ns"
      then obtain k where "k < length ns" "node_id (ns ! k) = node_id n"
        by (auto simp: in_set_conv_nth)
      with Cons.prems(2) 0 show False
        by (auto dest: spec [of _ "Suc k"])
    qed
    with 0 show ?thesis
      by (simp add: forEach_absent)
  next
    case (Suc j')
    have a: "j' < length ns" using Cons.prems(1) Suc by simp
    have b: "\<forall>k. j' < k \<and> k < length ns \<longrightarrow> node_id (ns ! k) \<noteq> node_id (ns ! j')"
    proof (intro allI impI)
      fix k assume "j' < k \<and> k < length ns"
      with Cons.prems(2) Suc show "node_id (ns ! k) \<noteq> node_id (ns ! j')"
        by (auto dest: spec [of _ "Suc k"])
    qed
    from Cons.IH [OF a b, of "Suc i"] Suc show ?thesis
      by simp
  qed
qed

lemma surrounding_not_agent: "''agent'' \<notin> node_id ` set (surroundingNodes ns)"
  by (auto simp: surroundingNodes_def)

lemma layout_center: "layout ns ''agent'' = Some \<lparr>pos_x = 400, pos_y = 300\<rparr>"
  by (simp add: layout_def forEach_absent surrounding_not_agent centerX_def centerY_def)

lemma dom_layout: "dom (layout ns) = insert ''agent'' (node_id ` set ns)"
  by (auto simp: layout_def dom_forEach surroundingNodes_def)

lemma length_map_indexed: "length (map_indexed f i xs) = length xs"
  by (induction xs arbitrary: i) auto

lemma nth_map_indexed: "k < length xs \<Longrightarrow> map_indexed f i xs ! k = f (i + k) (xs ! k)"
  by (induction xs arbitrary: i k) (auto simp: nth_Cons')

lemma positions_after_all: "positions_after (length (surroundingNodes ns)) ns = layout ns"
  by (simp add: positions_after_def layout_def)

lemma positions_after_step:
  assumes "i < length (surroundingNodes ns)"
  shows "positions_after (Suc i) ns (node_id (surroundingNodes ns ! i)) =
           Some \<lparr>pos_x = centerX + radius * cos (angle i (length (surroundingNodes ns))),
                 pos_y = centerY + radius * sin (angle i (length (surroundingNodes ns)))\<rparr>"
proof -
  let ?sn = "surroundingNodes ns"
  let ?p = "take (Suc i) ?sn"
  have len: "i < length ?p" using assms by simp
  have nth: "?p ! i = ?sn ! i" by simp
  have last: "\<forall>k. i < k \<and> k < length ?p \<longrightarrow> node_id (?p ! k) \<noteq> node_id (?p ! i)"
    using assms by auto
  from forEach_last_occurrence [OF len last, of 0] nth show ?thesis
    by (simp add: positions_after_def)
qed

lemma layout_last_occurrence:
  assumes "i < length (surroundingNodes ns)"
    and "\<forall>j. i < j \<and> j < length (surroundingNodes ns) \<longrightarrow>
           node_id (surroundingNodes ns ! j) \<noteq> node_id (surroundingNodes ns ! i)"
  shows "layout ns (node_id (surroundingNodes ns ! i)) =
           Some \<lparr>pos_x = centerX + radius * cos (angle i (length (surroundingNodes ns))),
                 pos_y = centerY + radius * sin (angle i (length (surroundingNodes ns)))\<rparr>"
  using forEach_last_occurrence [OF assms, of 0] by (simp add: layout_def)

subsection \<open>Which keys the layout defines, and the settled component\<close>

lemma layout_defined_iff: "layout ns k \<noteq> None \<longleftrightarrow> k = ''agent'' \<or> k \<in> node_id ` set ns"
proof -
  have "k \<in> dom (layout ns) \<longleftrightarrow> k \<in> insert ''agent'' (node_id ` set ns)"
    by (simp only: dom_layout)
  then show ?thesis
    by (simp add: domIff)
qed

lemma layout_node_id: "n \<in> set ns \<Longrightarrow> \<exists>pos. layout ns (node_id n) = Some pos"
  using layout_defined_iff [of ns "node_id n"] by auto

lemma render_link_defined_iff:
  "render_link env (layout ns) ns' i l \<noteq> None \<longleftrightarrow>
     source l \<in> insert ''agent'' (node_ids ns) \<and> target l \<in> insert ''agent'' (node_ids ns)"
  using layout_defined_iff [of ns "source l"] layout_defined_iff [of ns "target l"]
  by (auto simp: render_link_def node_ids_def split: option.splits)

lemma render_link_dropped_iff:
  "render_link env (layout ns) ns' i l = None \<longleftrightarrow>
     source l \<notin> insert ''agent'' (node_ids ns) \<or> target l \<notin> insert ''agent'' (node_ids ns)"
  using render_link_defined_iff [of env ns ns' i l] by blast

lemma render_node_defined: "n \<in> set ns \<Longrightarrow> render_node env (layout ns) n \<noteq> None"
  using layout_node_id [of n ns] by (auto simp: render_node_def)

lemma hook_delivered:
  "ok response \<Longrightarrow> json response = Fulfilled (Some payload) \<Longrightarrow>
   useReliabilityMapData (Fulfilled response) = \<lparr>data = Some payload, loading = False, error = None\<rparr>"
  by (simp add: useReliabilityMapData_def fetchData_def fetchData_try_def useState_initial_def)

lemma settled_positions_delivered:
  "ok response \<Longrightarrow> json response = Fulfilled (Some payload) \<Longrightarrow>
   settled_positions (Fulfilled response) = layout (nodes payload)"
  by (simp add: settled_positions_def hook_delivered layout_effect_def)

lemma settled_view_delivered:
  "ok response \<Longrightarrow> json response = Fulfilled (Some payload) \<Longrightarrow>
   settled_view env (Fulfilled response) =
     Graph (map_indexed (render_link env (layout (nodes payload)) (nodes payload)) 0 (links payload))
           (map (render_node env (layout (nodes payload))) (nodes payload))"
  by (simp add: settled_view_def settled_positions_delivered hook_delivered ReliabilityMap_def graph_def)

lemma ok_delivered: "ok \<lparr>status = 200, json = b\<rparr>"
  by (simp add: ok_def)

subsection \<open>Radial layout\<close>

text \<open>
  Claim C1 says that for every payload the \<open>i\<close>-th of the \<open>n\<close> surrounding nodes is
  placed at angle \<open>(i / n) 2\<pi>\<close>. The map is keyed by id, and a later call of the loop
  overwrites the entry of an earlier one: with two surrounding nodes that both have
  the id \<^verbatim>\<open>s1\<close>, the first of them (\<open>i = 0\<close>, \<open>n = 2\<close>) would lie at \<open>(550, 300)\<close>, and
  the layout returns \<open>(250, 300)\<close> for its id, the slot of the second.
\<close>

theorem layout_duplicate_id_first_slot:
  "surroundingNodes [json_node ''s1'' ''First'' Suite None, json_node ''s1'' ''Second'' Persona None]
     = [json_node ''s1'' ''First'' Suite None, json_node ''s1'' ''Second'' Persona None] \<and>
   node_id (surroundingNodes
     [json_node ''s1'' ''First'' Suite None, json_node ''s1'' ''Second'' Persona None] ! 0) = ''s1'' \<and>
   \<lparr>pos_x = 400 + 150 * cos (real (0::nat) / real (2::nat) * 2 * pi),
    pos_y = 300 + 150 * sin (real (0::nat) / real (2::nat) * 2 * pi)\<rparr> = \<lparr>pos_x = 550, pos_y = 300\<rparr> \<and>
   layout [json_node ''s1'' ''First'' Suite None, json_node ''s1'' ''Second'' Persona None] ''s1''
     = Some \<lparr>pos_x = 250, pos_y = 300\<rparr> \<and>
   layout [json_node ''s1'' ''First'' Suite None, json_node ''s1'' ''Second'' Persona None] ''s1''
     \<noteq> Some \<lparr>pos_x = 550, pos_y = 300\<rparr>"
  by (simp add: layout_def surroundingNodes_def json_node_def angle_def
      centerX_def centerY_def radius_def)

text \<open>
  Claim C1, amended. For every list of nodes the layout maps the key \<^verbatim>\<open>agent\<close> to the
  canvas centre \<open>(400, 300)\<close>. With \<open>n\<close> the number of surrounding nodes (those whose
  id is not \<^verbatim>\<open>agent\<close>), the layout maps the id of the \<open>i\<close>-th of them, counting from 0
  in input order, to \<open>(400 + 150 cos \<theta>, 300 + 150 sin \<theta>)\<close> with \<open>\<theta> = (i / n) 2\<pi>\<close>,
  provided that no later surrounding node has the same id; so it does for every
  surrounding node when their ids are pairwise distinct. This holds for every \<open>n\<close>
  and every order.
\<close>

theorem layout_radial:
  "layout ns ''agent'' = Some \<lparr>pos_x = 400, pos_y = 300\<rparr> \<and>
   (\<forall>i < length (surroundingNodes ns).
      (\<forall>j. i < j \<and> j < length (surroundingNodes ns) \<longrightarrow>
             node_id (surroundingNodes ns ! j) \<noteq> node_id (surroundingNodes ns ! i)) \<longrightarrow>
      layout ns (node_id (surroundingNodes ns ! i)) =
        Some \<lparr>pos_x = 400 + 150 * cos (real i / real (length (surroundingNodes ns)) * 2 * pi),
              pos_y = 300 + 150 * sin (real i / real (length (surroundingNodes ns)) * 2 * pi)\<rparr>) \<and>
   (distinct (map node_id (surroundingNodes ns)) \<longrightarrow>
      (\<forall>i < length (surroundingNodes ns).
         layout ns (node_id (surroundingNodes ns ! i)) =
           Some \<lparr>pos_x = 400 + 150 * cos (real i / real (length (surroundingNodes ns)) * 2 * pi),
                 pos_y = 300 + 150 * sin (real i / real (length (surroundingNodes ns)) * 2 * pi)\<rparr>))"
proof -
  let ?sn = "surroundingNodes ns"
  have slot: "layout ns (node_id (?sn ! i)) =
        Some \<lparr>pos_x = 400 + 150 * cos (real i / real (length ?sn) * 2 * pi),
              pos_y = 300 + 150 * sin (real i / real (length ?sn) * 2 * pi)\<rparr>"
    if "i < length ?sn"
      and "\<forall>j. i < j \<and> j < length ?sn \<longrightarrow> node_id (?sn ! j) \<noteq> node_id (?sn ! i)" for i
    using layout_last_occurrence [OF that]
    by (simp add: centerX_def centerY_def radius_def angle_def)
  have unique: "\<forall>j. i < j \<and> j < length ?sn \<longrightarrow> node_id (?sn ! j) \<noteq> node_id (?sn ! i)"
    if "distinct (map node_id ?sn)" and "i < length ?sn" for i
  proof (intro allI impI)
    fix j assume j: "i < j \<and> j < length ?sn"
    with that nth_eq_iff_index_eq [of "map node_id ?sn" j i]
    show "node_id (?sn ! j) \<noteq> node_id (?sn ! i)"
      by auto
  qed
  show ?thesis
    using slot unique by (simp add: layout_center)
qed

theorem layout_radial_witness:
  "layout [json_node ''agent'' ''Active Agent'' Agent (Some 0.85),
           json_node ''s1'' ''Suite 1'' Suite (Some 0.8),
           json_node ''s2'' ''Suite 2'' Suite None] ''agent''
     = Some \<lparr>pos_x = 400, pos_y = 300\<rparr> \<and>
   layout [json_node ''agent'' ''Active Agent'' Agent (Some 0.85),
           json_node ''s1'' ''Suite 1'' Suite (Some 0.8),
           json_node ''s2'' ''Suite 2'' Suite None] ''s1''
     = Some \<lparr>pos_x = 550, pos_y = 300\<rparr> \<and>
   layout [json_node ''agent'' ''Active Agent'' Agent (Some 0.85),
           json_node ''s1'' ''Suite 1'' Suite (Some 0.8),
           json_node ''s2'' ''Suite 2'' Suite None] ''s2''
     = Some \<lparr>pos_x = 250, pos_y = 300\<rparr>"
proof -
  let ?ns = "[json_node ''agent'' ''Active Agent'' Agent (Some 0.85),
           json_node ''s1'' ''Suite 1'' Suite (Some 0.8),
           json_node ''s2'' ''Suite 2'' Suite None]"
  note t = layout_radial [of ?ns]
  from t [THEN conjunct1]
    t [THEN conjunct2, THEN conjunct1, rule_format, of 0]
    t [THEN conjunct2, THEN conjunct1, rule_format, of 1]
  show ?thesis
    by (simp add: surroundingNodes_def json_node_def nth_Cons')
qed

subsection \<open>Node encoding and tooltips\<close>

text \<open>
  Claim C2 says that the fill opacity of a node is its score whenever the score is
  present, a present score of 0 included. The source writes \<^verbatim>\<open>node.score || 0.8\<close>, and
  0 is falsy: the node \<^verbatim>\<open>{id: 's1', label: 'Suite 1', type: 'suite', score: 0}\<close> is
  drawn with opacity 0.8, not 0.
\<close>

theorem zero_score_opacity:
  "fill_opacity (json_node ''s1'' ''Suite 1'' Suite (Some 0)) = 0.8 \<and>
   map_option (\<lambda>g. circle_opacity (circle g))
     (render_node env (layout [json_node ''s1'' ''Suite 1'' Suite (Some 0)])
        (json_node ''s1'' ''Suite 1'' Suite (Some 0))) = Some 0.8"
proof -
  obtain pos where "layout [json_node ''s1'' ''Suite 1'' Suite (Some 0)]
      (node_id (json_node ''s1'' ''Suite 1'' Suite (Some 0))) = Some pos"
    using layout_node_id [of "json_node ''s1'' ''Suite 1'' Suite (Some 0)"
        "[json_node ''s1'' ''Suite 1'' Suite (Some 0)]"]
    by auto
  then show ?thesis
    by (simp add: render_node_def fill_opacity_def json_node_def)
qed

text \<open>
  Claim C3 says that a present numeric field is shown as a percentage in the tooltip,
  so that a measured score of 0 reads \<^verbatim>\<open>0%\<close>. The source tests \<^verbatim>\<open>node.score ? ... : 'N/A'\<close>:
  for the same node the score field of the tooltip is \<^verbatim>\<open>N/A\<close>.
\<close>

theorem zero_score_tooltip:
  "score_field env (json_node ''s1'' ''Suite 1'' Suite (Some 0)) = ''N/A'' \<and>
   node_tooltip env (json_node ''s1'' ''Suite 1'' Suite (Some 0)) =
     ''Type: suite'' @ [CHR 0x0A] @ ''Score: N/A'' @ [CHR 0x0A] @ ''Last Run: N/A''"
  by (simp add: node_tooltip_def score_field_def lastRun_field_def type_name_def json_node_def)

text \<open>
  Claim C9 says that a node whose score is present and exactly 0 is rendered
  identically to the node without a score. The groups the component returns for the
  two are not equal: the expression \<^verbatim>\<open>node.score && (...)\<close> has the value 0 for the
  one, a number that React emits as the text \<^verbatim>\<open>0\<close> inside the group, and the value
  \<^verbatim>\<open>undefined\<close> for the other, which React emits as nothing.
\<close>

theorem zero_score_group_differs:
  "render_node example_platform [''s1'' \<mapsto> \<lparr>pos_x = 550, pos_y = 300\<rparr>]
     (json_node ''s1'' ''Suite 1'' Suite (Some 0)) \<noteq>
   render_node example_platform [''s1'' \<mapsto> \<lparr>pos_x = 550, pos_y = 300\<rparr>]
     (json_node ''s1'' ''Suite 1'' Suite None) \<and>
   map_option score_text
     (render_node example_platform [''s1'' \<mapsto> \<lparr>pos_x = 550, pos_y = 300\<rparr>]
        (json_node ''s1'' ''Suite 1'' Suite (Some 0))) = Some (JsNumber 0) \<and>
   map_option score_text
     (render_node example_platform [''s1'' \<mapsto> \<lparr>pos_x = 550, pos_y = 300\<rparr>]
        (json_node ''s1'' ''Suite 1'' Suite None)) = Some JsUndefined"
  by (simp add: render_node_def score_label_def json_node_def)

text \<open>
  Claim C9, amended. For every rendered node whose score is present and exactly 0,
  and for the same node without a score: the circle has fill opacity 0.8, the score
  field of its tooltip reads \<^verbatim>\<open>N/A\<close>, and the group has no percentage label above the
  circle. The two groups are equal but for one child: the number 0 in the group of
  the node with the score 0, where the group of the node without a score has
  \<^verbatim>\<open>undefined\<close>.
\<close>

theorem zero_score_as_absent:
  "node_score node = Some 0 \<Longrightarrow> positions (node_id node) = Some pos \<Longrightarrow>
   map_option (\<lambda>g. circle_opacity (circle g)) (render_node env positions node) = Some 0.8 \<and>
   map_option (\<lambda>g. circle_opacity (circle g))
     (render_node env positions (node\<lparr>node_score := None\<rparr>)) = Some 0.8 \<and>
   map_option (\<lambda>g. circle_title (circle g)) (render_node env positions node) =
     Some (''Type: '' @ type_name (node_type node) @ [CHR 0x0A] @
           ''Score: N/A'' @ [CHR 0x0A] @
           ''Last Run: '' @ lastRun_field env node) \<and>
   map_option (\<lambda>g. circle_title (circle g))
     (render_node env positions (node\<lparr>node_score := None\<rparr>)) =
     Some (''Type: '' @ type_name (node_type node) @ [CHR 0x0A] @
           ''Score: N/A'' @ [CHR 0x0A] @
           ''Last Run: '' @ lastRun_field env node) \<and>
   map_option has_percentage_label (render_node env positions node) = Some False \<and>
   map_option has_percentage_label
     (render_node env positions (node\<lparr>node_score := None\<rparr>)) = Some False \<and>
   map_option score_text (render_node env positions node) = Some (JsNumber 0) \<and>
   map_option score_text
     (render_node env positions (node\<lparr>node_score := None\<rparr>)) = Some JsUndefined \<and>
   render_node env positions (node\<lparr>node_score := None\<rparr>) =
     map_option (\<lambda>g. g\<lparr>score_text := JsUndefined\<rparr>) (render_node env positions node)"
  by (simp add: render_node_def fill_opacity_def score_field_def node_tooltip_def
      lastRun_field_def node_size_def color_def score_label_def has_percentage_label_def)

theorem zero_score_as_absent_witness:
  "map_option (\<lambda>g. circle_opacity (circle g))
     (render_node example_platform [''s1'' \<mapsto> \<lparr>pos_x = 550, pos_y = 300\<rparr>]
        (json_node ''s1'' ''Suite 1'' Suite (Some 0))) = Some 0.8 \<and>
   map_option (\<lambda>g. circle_title (circle g))
     (render_node example_platform [''s1'' \<mapsto> \<lparr>pos_x = 550, pos_y = 300\<rparr>]
        (json_node ''s1'' ''Suite 1'' Suite (Some 0))) =
     Some (''Type: suite'' @ [CHR 0x0A] @ ''Score: N/A'' @ [CHR 0x0A] @ ''Last Run: N/A'') \<and>
   map_option has_percentage_label
     (render_node example_platform [''s1'' \<mapsto> \<lparr>pos_x = 550, pos_y = 300\<rparr>]
        (json_node ''s1'' ''Suite 1'' Suite (Some 0))) = Some False \<and>
   render_node example_platform [''s1'' \<mapsto> \<lparr>pos_x = 550, pos_y = 300\<rparr>]
        (json_node ''s1'' ''Suite 1'' Suite None) =
     map_option (\<lambda>g. g\<lparr>score_text := JsUndefined\<rparr>)
       (render_node example_platform [''s1'' \<mapsto> \<lparr>pos_x = 550, pos_y = 300\<rparr>]
          (json_node ''s1'' ''Suite 1'' Suite (Some 0)))"
  using zero_score_as_absent [of "json_node ''s1'' ''Suite 1'' Suite (Some 0)"
      "[''s1'' \<mapsto> \<lparr>pos_x = 550, pos_y = 300\<rparr>]" "\<lparr>pos_x = 550, pos_y = 300\<rparr>" example_platform]
  by (simp add: json_node_def type_name_def lastRun_field_def)

subsection \<open>Link encoding\<close>

text \<open>
  Claim C4 says that the opacity of a link is \<open>1 - drift\<close> clamped to \<open>[0, 1]\<close>. The
  source writes \<^verbatim>\<open>opacity={1 - link.drift}\<close> and clamps nowhere: a link with drift 2 is
  rendered with opacity \<open>-1\<close>, where the clamped value is 0.
\<close>

theorem link_encoding_unclamped:
  "map_option line_opacity
     (render_link example_platform
        (layout [json_node ''agent'' ''Active Agent'' Agent None, json_node ''s1'' ''Suite 1'' Suite None])
        [json_node ''agent'' ''Active Agent'' Agent None, json_node ''s1'' ''Suite 1'' Suite None]
        0 \<lparr>source = ''agent'', target = ''s1'', strength = 1, drift = 2\<rparr>) = Some (- 1) \<and>
   clamp01 (1 - drift \<lparr>source = ''agent'', target = ''s1'', strength = 1, drift = 2\<rparr>) = 0"
proof -
  let ?ns = "[json_node ''agent'' ''Active Agent'' Agent None, json_node ''s1'' ''Suite 1'' Suite None]"
  have p: "layout ?ns ''agent'' = Some \<lparr>pos_x = 400, pos_y = 300\<rparr>"
    by (rule layout_center)
  obtain q where q: "layout ?ns ''s1'' = Some q"
    using layout_node_id [of "json_node ''s1'' ''Suite 1'' Suite None" ?ns]
    by (auto simp: json_node_def)
  show ?thesis
    by (simp add: render_link_def clamp01_def p q)
qed

text \<open>
  Claim C4, amended. For every rendered link the stroke width is \<open>5 * strength\<close>, so
  linear in the strength with the fixed multiplier 5 and non-decreasing in it, from
  width 0 at strength 0 to width 5 at strength 1; the opacity is exactly \<open>1 - drift\<close>,
  with no clamping, and agrees with the clamped value whenever the drift lies in
  \<open>[0, 1]\<close>.
\<close>

theorem link_encoding:
  "render_link env positions ns index link = Some el \<Longrightarrow>
   render_link env' positions' ns' index' link' = Some el2 \<Longrightarrow>
   strokeWidth el = 5 * strength link \<and>
   (strength link \<le> strength link' \<longrightarrow> strokeWidth el \<le> strokeWidth el2) \<and>
   (0 \<le> strength link \<and> strength link \<le> 1 \<longrightarrow> 0 \<le> strokeWidth el \<and> strokeWidth el \<le> 5) \<and>
   line_opacity el = 1 - drift link \<and>
   (0 \<le> drift link \<and> drift link \<le> 1 \<longrightarrow> line_opacity el = clamp01 (1 - drift link))"
  by (auto simp: render_link_def clamp01_def split: option.splits)

theorem link_encoding_witness:
  "render_link example_platform [''agent'' \<mapsto> \<lparr>pos_x = 400, pos_y = 300\<rparr>, ''s1'' \<mapsto> \<lparr>pos_x = 550, pos_y = 300\<rparr>] [] 0
     \<lparr>source = ''agent'', target = ''s1'', strength = 0.8, drift = 0.1\<rparr> \<noteq> None \<and>
   map_option strokeWidth
     (render_link example_platform [''agent'' \<mapsto> \<lparr>pos_x = 400, pos_y = 300\<rparr>, ''s1'' \<mapsto> \<lparr>pos_x = 550, pos_y = 300\<rparr>] [] 0
       \<lparr>source = ''agent'', target = ''s1'', strength = 0.8, drift = 0.1\<rparr>) = Some 4 \<and>
   map_option line_opacity
     (render_link example_platform [''agent'' \<mapsto> \<lparr>pos_x = 400, pos_y = 300\<rparr>, ''s1'' \<mapsto> \<lparr>pos_x = 550, pos_y = 300\<rparr>] [] 0
       \<lparr>source = ''agent'', target = ''s1'', strength = 0.8, drift = 0.1\<rparr>) = Some 0.9"
proof -
  let ?p = "[''agent'' \<mapsto> \<lparr>pos_x = 400, pos_y = 300\<rparr>, ''s1'' \<mapsto> \<lparr>pos_x = 550, pos_y = 300\<rparr>]"
  let ?l = "\<lparr>source = ''agent'', target = ''s1'', strength = 0.8, drift = 0.1\<rparr>"
  let ?l' = "\<lparr>source = ''s1'', target = ''agent'', strength = 1, drift = 0\<rparr>"
  obtain el where a: "render_link example_platform ?p [] 0 ?l = Some el"
    by (simp add: render_link_def)
  obtain el2 where b: "render_link example_platform ?p [] 1 ?l' = Some el2"
    by (simp add: render_link_def)
  from link_encoding [OF a b] a show ?thesis
    by simp
qed

subsection \<open>Dangling links and the missing centre\<close>

text \<open>
  Claim C5 says that a link whose source or target is absent from the payload's nodes
  is not rendered. The key \<^verbatim>\<open>agent\<close> is in the position map of every payload: with the
  single node \<^verbatim>\<open>s1\<close> and the link from \<^verbatim>\<open>agent\<close> to \<^verbatim>\<open>s1\<close>, the source of the link is
  no node of the payload and the line is drawn, from the centre to \<^verbatim>\<open>s1\<close>.
\<close>

theorem dangling_link_agent_rendered:
  "''agent'' \<notin> node_ids [json_node ''s1'' ''Suite 1'' Suite None] \<and>
   map (map_option (\<lambda>e. (x1 e, y1 e, x2 e, y2 e)))
     (edges_of (settled_view example_platform
        (delivered \<lparr>nodes = [json_node ''s1'' ''Suite 1'' Suite None],
                    links = [\<lparr>source = ''agent'', target = ''s1'', strength = 0.8, drift = 0.1\<rparr>]\<rparr>)))
     = [Some (400, 300, 550, 300)]"
  by (simp add: node_ids_def json_node_def delivered_def settled_view_delivered ok_delivered
      edges_of_def render_link_def layout_def surroundingNodes_def angle_def
      centerX_def centerY_def radius_def)

text \<open>
  Claim C5, amended. Once a payload has been delivered, the view is the graph, with
  one entry per link and one per node. The entry of a link is \<^verbatim>\<open>null\<close> exactly when its
  source or its target is neither \<^verbatim>\<open>agent\<close> nor the id of a node of the payload; every
  other link is rendered, and so is every node.
\<close>

theorem dangling_link_dropped:
  assumes "ok response" and "json response = Fulfilled (Some payload)"
  shows "is_graph (settled_view env (Fulfilled response)) \<and>
         length (edges_of (settled_view env (Fulfilled response))) = length (links payload) \<and>
         length (groups_of (settled_view env (Fulfilled response))) = length (nodes payload) \<and>
         (\<forall>i < length (links payload).
            edges_of (settled_view env (Fulfilled response)) ! i = None \<longleftrightarrow>
              source (links payload ! i) \<notin> insert ''agent'' (node_ids (nodes payload)) \<or>
              target (links payload ! i) \<notin> insert ''agent'' (node_ids (nodes payload))) \<and>
         (\<forall>j < length (nodes payload).
            groups_of (settled_view env (Fulfilled response)) ! j \<noteq> None)"
proof -
  let ?v = "settled_view env (Fulfilled response)"
  have v: "?v = Graph (map_indexed (render_link env (layout (nodes payload)) (nodes payload)) 0 (links payload))
                      (map (render_node env (layout (nodes payload))) (nodes payload))"
    using assms by (rule settled_view_delivered)
  have edges: "edges_of ?v ! i = None \<longleftrightarrow>
      source (links payload ! i) \<notin> insert ''agent'' (node_ids (nodes payload)) \<or>
      target (links payload ! i) \<notin> insert ''agent'' (node_ids (nodes payload))"
    if "i < length (links payload)" for i
    using that render_link_dropped_iff [of env "nodes payload" "nodes payload" i "links payload ! i"]
    by (simp only: v edges_of_def view.case nth_map_indexed add_0)
  have groups: "groups_of ?v ! j \<noteq> None" if "j < length (nodes payload)" for j
    using that render_node_defined [of "nodes payload ! j" "nodes payload" env]
    by (simp add: v groups_of_def)
  show ?thesis
    using edges groups by (simp add: v is_graph_def edges_of_def groups_of_def length_map_indexed)
qed

theorem dangling_link_dropped_witness:
  "edges_of (settled_view example_platform
      (delivered \<lparr>nodes = [json_node ''agent'' ''Active Agent'' Agent None, json_node ''s1'' ''Suite 1'' Suite None],
                  links = [\<lparr>source = ''agent'', target = ''ghost'', strength = 0.5, drift = 0\<rparr>,
                           \<lparr>source = ''agent'', target = ''s1'', strength = 0.8, drift = 0.1\<rparr>]\<rparr>)) ! 0 = None \<and>
   edges_of (settled_view example_platform
      (delivered \<lparr>nodes = [json_node ''agent'' ''Active Agent'' Agent None, json_node ''s1'' ''Suite 1'' Suite None],
                  links = [\<lparr>source = ''agent'', target = ''ghost'', strength = 0.5, drift = 0\<rparr>,
                           \<lparr>source = ''agent'', target = ''s1'', strength = 0.8, drift = 0.1\<rparr>]\<rparr>)) ! 1 \<noteq> None \<and>
   groups_of (settled_view example_platform
      (delivered \<lparr>nodes = [json_node ''agent'' ''Active Agent'' Agent None, json_node ''s1'' ''Suite 1'' Suite None],
                  links = [\<lparr>source = ''agent'', target = ''ghost'', strength = 0.5, drift = 0\<rparr>,
                           \<lparr>source = ''agent'', target = ''s1'', strength = 0.8, drift = 0.1\<rparr>]\<rparr>)) ! 0 \<noteq> None \<and>
   groups_of (settled_view example_platform
      (delivered \<lparr>nodes = [json_node ''agent'' ''Active Agent'' Agent None, json_node ''s1'' ''Suite 1'' Suite None],
                  links = [\<lparr>source = ''agent'', target = ''ghost'', strength = 0.5, drift = 0\<rparr>,
                           \<lparr>source = ''agent'', target = ''s1'', strength = 0.8, drift = 0.1\<rparr>]\<rparr>)) ! 1 \<noteq> None"
proof -
  let ?payload = "\<lparr>nodes = [json_node ''agent'' ''Active Agent'' Agent None, json_node ''s1'' ''Suite 1'' Suite None],
                  links = [\<lparr>source = ''agent'', target = ''ghost'', strength = 0.5, drift = 0\<rparr>,
                           \<lparr>source = ''agent'', target = ''s1'', strength = 0.8, drift = 0.1\<rparr>]\<rparr>"
  let ?response = "\<lparr>status = 200, json = Fulfilled (Some ?payload)\<rparr>"
  have a: "ok ?response" by (simp add: ok_def)
  have b: "json ?response = Fulfilled (Some ?payload)" by simp
  note t = dangling_link_dropped [OF a b, of example_platform]
  from t [THEN conjunct2, THEN conjunct2, THEN conjunct2, THEN conjunct1, rule_format, of 0]
    t [THEN conjunct2, THEN conjunct2, THEN conjunct2, THEN conjunct1, rule_format, of 1]
    t [THEN conjunct2, THEN conjunct2, THEN conjunct2, THEN conjunct2, rule_format, of 0]
    t [THEN conjunct2, THEN conjunct2, THEN conjunct2, THEN conjunct2, rule_format, of 1]
  show ?thesis
    by (simp add: delivered_def node_ids_def json_node_def)
qed

text \<open>
  Claim C6 says that the layout signals a missing centre node. The source has no
  such signal: for the payload with the single node \<^verbatim>\<open>s1\<close> the hook reports no error,
  the view is the graph, and the position map holds the centre for the key \<^verbatim>\<open>agent\<close>.
\<close>

theorem missing_center_not_signalled:
  "''agent'' \<notin> node_ids [json_node ''s1'' ''Suite 1'' Suite None] \<and>
   error (useReliabilityMapData
            (delivered \<lparr>nodes = [json_node ''s1'' ''Suite 1'' Suite None], links = []\<rparr>)) = None \<and>
   is_graph (settled_view example_platform
            (delivered \<lparr>nodes = [json_node ''s1'' ''Suite 1'' Suite None], links = []\<rparr>)) \<and>
   settled_positions
            (delivered \<lparr>nodes = [json_node ''s1'' ''Suite 1'' Suite None], links = []\<rparr>) ''agent''
     = Some \<lparr>pos_x = 400, pos_y = 300\<rparr>"
  by (simp add: node_ids_def json_node_def delivered_def hook_delivered settled_view_delivered
      settled_positions_delivered ok_delivered is_graph_def layout_center)

text \<open>
  Claim C6, amended. For every delivered payload with no node whose id is \<^verbatim>\<open>agent\<close>,
  the layout signals nothing: the hook's error stays \<^verbatim>\<open>null\<close>, the position map holds
  \<open>(400, 300)\<close> for the key \<^verbatim>\<open>agent\<close>, and the view is the graph with every node of the
  payload rendered.
\<close>

theorem missing_center_defaulted:
  assumes "ok response" and "json response = Fulfilled (Some payload)"
    and "''agent'' \<notin> node_ids (nodes payload)"
  shows "error (useReliabilityMapData (Fulfilled response)) = None \<and>
         settled_positions (Fulfilled response) ''agent'' = Some \<lparr>pos_x = 400, pos_y = 300\<rparr> \<and>
         is_graph (settled_view env (Fulfilled response)) \<and>
         length (groups_of (settled_view env (Fulfilled response))) = length (nodes payload) \<and>
         (\<forall>j < length (nodes payload).
            groups_of (settled_view env (Fulfilled response)) ! j \<noteq> None)"
proof -
  have "groups_of (settled_view env (Fulfilled response)) ! j \<noteq> None"
    if "j < length (nodes payload)" for j
    using that render_node_defined [of "nodes payload ! j" "nodes payload" env]
    by (simp add: settled_view_delivered [OF assms(1,2)] groups_of_def)
  then show ?thesis
    by (simp add: hook_delivered [OF assms(1,2)] settled_positions_delivered [OF assms(1,2)]
        settled_view_delivered [OF assms(1,2)] layout_center is_graph_def groups_of_def)
qed

theorem missing_center_defaulted_witness:
  "error (useReliabilityMapData
            (delivered \<lparr>nodes = [json_node ''s1'' ''Suite 1'' Suite None], links = []\<rparr>)) = None \<and>
   settled_positions
            (delivered \<lparr>nodes = [json_node ''s1'' ''Suite 1'' Suite None], links = []\<rparr>) ''agent''
     = Some \<lparr>pos_x = 400, pos_y = 300\<rparr> \<and>
   groups_of (settled_view example_platform
            (delivered \<lparr>nodes = [json_node ''s1'' ''Suite 1'' Suite None], links = []\<rparr>)) ! 0 \<noteq> None"
proof -
  let ?payload = "\<lparr>nodes = [json_node ''s1'' ''Suite 1'' Suite None], links = []\<rparr>"
  let ?response = "\<lparr>status = 200, json = Fulfilled (Some ?payload)\<rparr>"
  have a: "ok ?response" by (simp add: ok_def)
  have b: "json ?response = Fulfilled (Some ?payload)" by simp
  have c: "''agent'' \<notin> node_ids (nodes ?payload)" by (simp add: node_ids_def json_node_def)
  note t = missing_center_defaulted [OF a b c, of example_platform]
  from t t [THEN conjunct2, THEN conjunct2, THEN conjunct2, THEN conjunct2, rule_format, of 0]
  show ?thesis
    by (simp add: delivered_def)
qed

text \<open>
  Claim C8 says that every link with \<^verbatim>\<open>agent\<close> as source or target is rendered. The
  other end has to resolve as well: with no nodes and a link from \<^verbatim>\<open>agent\<close> to
  \<^verbatim>\<open>ghost\<close>, the map holds the centre for \<^verbatim>\<open>agent\<close> and the link is not rendered.
\<close>

theorem agent_link_dangling_target:
  "settled_positions
     (delivered \<lparr>nodes = [], links = [\<lparr>source = ''agent'', target = ''ghost'', strength = 1, drift = 0\<rparr>]\<rparr>)
     ''agent'' = Some \<lparr>pos_x = 400, pos_y = 300\<rparr> \<and>
   edges_of (settled_view example_platform
     (delivered \<lparr>nodes = [], links = [\<lparr>source = ''agent'', target = ''ghost'', strength = 1, drift = 0\<rparr>]\<rparr>))
     = [None]"
  by (simp add: delivered_def settled_view_delivered settled_positions_delivered ok_delivered
      edges_of_def render_link_def layout_def surroundingNodes_def centerX_def centerY_def)

text \<open>
  Claim C8, amended. For every delivered payload, with or without a node whose id is
  \<^verbatim>\<open>agent\<close>, the position map holds exactly \<open>(400, 300)\<close> for the key \<^verbatim>\<open>agent\<close>; so
  every link with \<^verbatim>\<open>agent\<close> at one end is rendered as soon as its other end is
  \<^verbatim>\<open>agent\<close> or the id of a node of the payload.
\<close>

theorem agent_key_always_present:
  assumes "ok response" and "json response = Fulfilled (Some payload)"
  shows "settled_positions (Fulfilled response) ''agent'' = Some \<lparr>pos_x = 400, pos_y = 300\<rparr> \<and>
         (\<forall>i < length (links payload).
            (source (links payload ! i) = ''agent'' \<and>
               target (links payload ! i) \<in> insert ''agent'' (node_ids (nodes payload))) \<or>
            (target (links payload ! i) = ''agent'' \<and>
               source (links payload ! i) \<in> insert ''agent'' (node_ids (nodes payload)))
            \<longrightarrow> edges_of (settled_view env (Fulfilled response)) ! i \<noteq> None)"
proof -
  have "edges_of (settled_view env (Fulfilled response)) ! i \<noteq> None"
    if "i < length (links payload)"
      and "(source (links payload ! i) = ''agent'' \<and>
               target (links payload ! i) \<in> insert ''agent'' (node_ids (nodes payload))) \<or>
            (target (links payload ! i) = ''agent'' \<and>
               source (links payload ! i) \<in> insert ''agent'' (node_ids (nodes payload)))" for i
  proof -
    have "render_link env (layout (nodes payload)) (nodes payload) i (links payload ! i) \<noteq> None"
      using that(2) render_link_defined_iff [of env "nodes payload" "nodes payload" i "links payload ! i"]
      by blast
    with that(1) show ?thesis
      by (simp add: settled_view_delivered [OF assms] edges_of_def nth_map_indexed)
  qed
  then show ?thesis
    by (simp add: settled_positions_delivered [OF assms] layout_center)
qed

theorem agent_key_always_present_witness:
  "''agent'' \<notin> node_ids [json_node ''s1'' ''Suite 1'' Suite None] \<and>
   settled_positions
     (delivered \<lparr>nodes = [json_node ''s1'' ''Suite 1'' Suite None],
                 links = [\<lparr>source = ''agent'', target = ''s1'', strength = 0.8, drift = 0.1\<rparr>]\<rparr>)
     ''agent'' = Some \<lparr>pos_x = 400, pos_y = 300\<rparr> \<and>
   edges_of (settled_view example_platform
     (delivered \<lparr>nodes = [json_node ''s1'' ''Suite 1'' Suite None],
                 links = [\<lparr>source = ''agent'', target = ''s1'', strength = 0.8, drift = 0.1\<rparr>]\<rparr>)) ! 0
     \<noteq> None"
proof -
  let ?payload = "\<lparr>nodes = [json_node ''s1'' ''Suite 1'' Suite None],
                 links = [\<lparr>source = ''agent'', target = ''s1'', strength = 0.8, drift = 0.1\<rparr>]\<rparr>"
  let ?response = "\<lparr>status = 200, json = Fulfilled (Some ?payload)\<rparr>"
  have a: "ok ?response" by (simp add: ok_def)
  have b: "json ?response = Fulfilled (Some ?payload)" by simp
  note t = agent_key_always_present [OF a b, of example_platform]
  from t [THEN conjunct1] t [THEN conjunct2, rule_format, of 0]
  show ?thesis
    by (simp add: delivered_def node_ids_def json_node_def)
qed

subsection \<open>Fetch failures\<close>

text \<open>
  The view starts in the loading state. A response with a status outside 200 to 299
  ends in the error box with the message of the hook; a fetch that rejects with an
  \<^verbatim>\<open>Error\<close> whose message is not empty ends in the error box with that message, and one
  that rejects with a value that is no \<^verbatim>\<open>Error\<close> with the message \<^verbatim>\<open>Unknown error\<close>.
\<close>

lemma fetch_failure_paths:
  "ReliabilityMap env useState_initial Map.empty = Loading \<and>
   (\<not> ok response \<longrightarrow>
      error (useReliabilityMapData (Fulfilled response)) = Some ''Failed to fetch reliability map data'' \<and>
      settled_view env (Fulfilled response) = ErrorBox ''Failed to fetch reliability map data'') \<and>
   (message \<noteq> [] \<longrightarrow>
      error (useReliabilityMapData (Rejected (Error message))) = Some message \<and>
      settled_view env (Rejected (Error message)) = ErrorBox message) \<and>
   error (useReliabilityMapData (Rejected NotAnError)) = Some ''Unknown error'' \<and>
   settled_view env (Rejected NotAnError) = ErrorBox ''Unknown error''"
  by (simp add: settled_view_def settled_positions_def useReliabilityMapData_def fetchData_def
      fetchData_try_def useState_initial_def error_message_def ReliabilityMap_def graph_def
      layout_effect_def)

text \<open>
  Claim C7 says that a fetch that returns a status outside 200 to 299, or rejects,
  puts the view into the error state with the surfaced message. The view tests
  \<^verbatim>\<open>if (error)\<close> on a string, and the empty string is falsy: when the fetch rejects
  with \<^verbatim>\<open>new Error('')\<close>, the hook stores the empty message and the view shows the
  screen for missing data, where every other failed fetch shows the error box.
\<close>

theorem fetch_rejected_empty_message:
  "useReliabilityMapData (Rejected (Error [])) = \<lparr>data = None, loading = False, error = Some []\<rparr> \<and>
   settled_view example_platform (Rejected (Error [])) = NoData \<and>
   settled_view example_platform (Rejected (Error ''Failed to fetch'')) = ErrorBox ''Failed to fetch'' \<and>
   settled_view example_platform (Rejected NotAnError) = ErrorBox ''Unknown error'' \<and>
   settled_view example_platform (Fulfilled \<lparr>status = 500, json = Rejected NotAnError\<rparr>)
     = ErrorBox ''Failed to fetch reliability map data''"
  by (simp add: settled_view_def settled_positions_def useReliabilityMapData_def fetchData_def
      fetchData_try_def useState_initial_def error_message_def ReliabilityMap_def graph_def
      layout_effect_def ok_def)

subsection \<open>Duplicate ids\<close>

text \<open>
  Claim C10. Let two surrounding nodes of a delivered payload, the \<open>i\<close>-th and the
  \<open>j\<close>-th with \<open>i < j\<close>, have the same id, the \<open>j\<close>-th being its last occurrence.
  No error is reported and the view is the graph. Each occurrence takes its own slot
  among the \<open>n\<close> surrounding slots (the \<open>i\<close>-th call of the loop stores the position at
  angle \<open>(i / n) 2\<pi>\<close>, with both occurrences counted in \<open>n\<close>), but the map ends with the
  position of the last occurrence alone, and every circle drawn for that id lies
  there.
\<close>

theorem duplicate_ids_last_wins:
  assumes "ok response" and "json response = Fulfilled (Some payload)"
    and "i < j" and "j < length (surroundingNodes (nodes payload))"
    and "node_id (surroundingNodes (nodes payload) ! i) = node_id (surroundingNodes (nodes payload) ! j)"
    and "\<forall>k. j < k \<and> k < length (surroundingNodes (nodes payload)) \<longrightarrow>
           node_id (surroundingNodes (nodes payload) ! k) \<noteq> node_id (surroundingNodes (nodes payload) ! j)"
  shows "error (useReliabilityMapData (Fulfilled response)) = None \<and>
         is_graph (settled_view env (Fulfilled response)) \<and>
         positions_after (Suc i) (nodes payload) (node_id (surroundingNodes (nodes payload) ! i)) =
           Some \<lparr>pos_x = 400 + 150 * cos (real i / real (length (surroundingNodes (nodes payload))) * 2 * pi),
                 pos_y = 300 + 150 * sin (real i / real (length (surroundingNodes (nodes payload))) * 2 * pi)\<rparr> \<and>
         settled_positions (Fulfilled response) (node_id (surroundingNodes (nodes payload) ! i)) =
           Some \<lparr>pos_x = 400 + 150 * cos (real j / real (length (surroundingNodes (nodes payload))) * 2 * pi),
                 pos_y = 300 + 150 * sin (real j / real (length (surroundingNodes (nodes payload))) * 2 * pi)\<rparr> \<and>
         (\<forall>m < length (nodes payload).
            node_id (nodes payload ! m) = node_id (surroundingNodes (nodes payload) ! i) \<longrightarrow>
            map_option (\<lambda>g. (cx (circle g), cy (circle g)))
              (groups_of (settled_view env (Fulfilled response)) ! m) =
              Some (400 + 150 * cos (real j / real (length (surroundingNodes (nodes payload))) * 2 * pi),
                    300 + 150 * sin (real j / real (length (surroundingNodes (nodes payload))) * 2 * pi)))"
proof -
  let ?ns = "nodes payload"
  let ?sn = "surroundingNodes ?ns"
  let ?v = "settled_view env (Fulfilled response)"
  have own: "positions_after (Suc i) ?ns (node_id (?sn ! i)) =
           Some \<lparr>pos_x = 400 + 150 * cos (real i / real (length ?sn) * 2 * pi),
                 pos_y = 300 + 150 * sin (real i / real (length ?sn) * 2 * pi)\<rparr>"
    using positions_after_step [of i ?ns] assms(3,4)
    by (simp add: centerX_def centerY_def radius_def angle_def)
  have final: "layout ?ns (node_id (?sn ! i)) =
           Some \<lparr>pos_x = 400 + 150 * cos (real j / real (length ?sn) * 2 * pi),
                 pos_y = 300 + 150 * sin (real j / real (length ?sn) * 2 * pi)\<rparr>"
    using layout_last_occurrence [OF assms(4) assms(6)] assms(5)
    by (simp add: centerX_def centerY_def radius_def angle_def)
  have circles: "map_option (\<lambda>g. (cx (circle g), cy (circle g))) (groups_of ?v ! m) =
              Some (400 + 150 * cos (real j / real (length ?sn) * 2 * pi),
                    300 + 150 * sin (real j / real (length ?sn) * 2 * pi))"
    if "m < length ?ns" and "node_id (?ns ! m) = node_id (?sn ! i)" for m
    using that final
    by (simp add: settled_view_delivered [OF assms(1,2)] groups_of_def render_node_def)
  show ?thesis
    using own final circles
    by (simp add: hook_delivered [OF assms(1,2)] settled_positions_delivered [OF assms(1,2)]
        settled_view_delivered [OF assms(1,2)] is_graph_def)
qed

theorem duplicate_ids_last_wins_witness:
  "error (useReliabilityMapData
      (delivered \<lparr>nodes = [json_node ''s1'' ''First'' Suite None, json_node ''s1'' ''Second'' Persona None],
                  links = []\<rparr>)) = None \<and>
   positions_after (Suc 0)
      [json_node ''s1'' ''First'' Suite None, json_node ''s1'' ''Second'' Persona None] ''s1''
     = Some \<lparr>pos_x = 550, pos_y = 300\<rparr> \<and>
   settled_positions
      (delivered \<lparr>nodes = [json_node ''s1'' ''First'' Suite None, json_node ''s1'' ''Second'' Persona None],
                  links = []\<rparr>) ''s1''
     = Some \<lparr>pos_x = 250, pos_y = 300\<rparr> \<and>
   map_option (\<lambda>g. (cx (circle g), cy (circle g)))
     (groups_of (settled_view example_platform
        (delivered \<lparr>nodes = [json_node ''s1'' ''First'' Suite None, json_node ''s1'' ''Second'' Persona None],
                    links = []\<rparr>)) ! 0) = Some (250, 300) \<and>
   map_option (\<lambda>g. (cx (circle g), cy (circle g)))
     (groups_of (settled_view example_platform
        (delivered \<lparr>nodes = [json_node ''s1'' ''First'' Suite None, json_node ''s1'' ''Second'' Persona None],
                    links = []\<rparr>)) ! 1) = Some (250, 300)"
proof -
  let ?payload = "\<lparr>nodes = [json_node ''s1'' ''First'' Suite None, json_node ''s1'' ''Second'' Persona None],
                  links = []\<rparr>"
  let ?response = "\<lparr>status = 200, json = Fulfilled (Some ?payload)\<rparr>"
  have a: "ok ?response" by (simp add: ok_def)
  have b: "json ?response = Fulfilled (Some ?payload)" by simp
  have c: "(0::nat) < 1" by simp
  have d: "1 < length (surroundingNodes (nodes ?payload))" by (simp add: surroundingNodes_def json_node_def)
  have e: "node_id (surroundingNodes (nodes ?payload) ! 0) = node_id (surroundingNodes (nodes ?payload) ! 1)"
    by (simp add: surroundingNodes_def json_node_def)
  have f: "\<forall>k. 1 < k \<and> k < length (surroundingNodes (nodes ?payload)) \<longrightarrow>
           node_id (surroundingNodes (nodes ?payload) ! k) \<noteq> node_id (surroundingNodes (nodes ?payload) ! 1)"
    by (simp add: surroundingNodes_def json_node_def)
  note t = duplicate_ids_last_wins [OF a b c d e f, of example_platform]
  from t [THEN conjunct1] t [THEN conjunct2, THEN conjunct2, THEN conjunct1]
    t [THEN conjunct2, THEN conjunct2, THEN conjunct2, THEN conjunct1]
    t [THEN conjunct2, THEN conjunct2, THEN conjunct2, THEN conjunct2, rule_format, of 0]
    t [THEN conjunct2, THEN conjunct2, THEN conjunct2, THEN conjunct2, rule_format, of 1]
  show ?thesis
    by (simp add: surroundingNodes_def delivered_def json_node_def)
qed

end
